theory Spec2Isabelle
  imports Main
begin

section \<open>The notebook \<open>0_introduction-to-rdkit.ipynb\<close> as a straight-line program\<close>

text \<open>
  The repository is one notebook. Its code cells are short call sequences into RDKit,
  pandas, numpy, gzip and json; the libraries themselves are not part of the repository.
  The embedding therefore has three layers:
  \<^item> the libraries are a parameter \<open>lib\<close>, a record with one field for every library
    function the cells call (the consumed library boundary);
  \<^item> what the cells themselves do, written in Python, is translated: evaluation order,
    attribute access on \<open>None\<close>, the \<open>for\<close>/\<open>enumerate\<close> loop, f-strings, \<open>print\<close>,
    an exception leaving a cell, and cells run top to bottom;
  \<^item> the text the notebook file stores as the output of a cell is transcribed as a
    constant.
  Cells are named by their execution count: \<open>cell12\<close> is the cell marked \<open>In [12]\<close>.
  \<open>In [1]\<close> holds the imports and has no counterpart here. What a cell displays as the
  value of its last expression (a rendered table, the \<open>repr\<close> of an object) is
  presentation and is not among the events of a run.
\<close>

subsection \<open>Python values, exceptions and events\<close>

text \<open>
  A table entry is a string, a molecule, \<open>None\<close>, or some other JSON value that the
  notebook never inspects (numbers, lists, booleans).
\<close>

datatype ('m, 'j) pyval = PyStr string | PyMol 'm | PyNone | PyJson 'j

text \<open>
  \<open>AttributeError\<close> is what Python raises for a method call on \<open>None\<close>, \<open>KeyError\<close>
  what a column lookup raises for a missing label; \<open>LibraryError\<close> wraps whatever a
  library function raises.
\<close>

datatype 'e exn = AttributeError | KeyError string | LibraryError 'e

text \<open>
  What a run shows to an observer: a \<open>print\<close> call of a cell (cell number, text), and
  a descriptor, ring-information or fingerprint call together with the Python value it
  receives as its molecule argument (\<open>None\<close> is Python's \<open>None\<close>).
\<close>

datatype 'm event = Print nat string | Call string "'m option"

type_synonym ('m, 'e, 'a) run = "'m event list \<times> ('e exn + 'a)"

definition returns :: "'a \<Rightarrow> ('m, 'e, 'a) run" where
  "returns a = ([], Inr a)"

definition raises :: "'e exn \<Rightarrow> ('m, 'e, 'a) run" where
  "raises x = ([], Inl x)"

definition emits :: "'m event \<Rightarrow> ('m, 'e, unit) run" where
  "emits ev = ([ev], Inr ())"

text \<open>A library call: its exception, if any, becomes the exception of the statement.\<close>

definition lib_call :: "'e + 'a \<Rightarrow> ('m, 'e, 'a) run" where
  "lib_call r = (case r of Inl e \<Rightarrow> ([], Inl (LibraryError e)) | Inr a \<Rightarrow> ([], Inr a))"

text \<open>
  Sequencing. No cell has a \<open>try\<close>: an exception ends the statement, the cell and the
  run; what was printed before stays printed.
\<close>

definition andthen :: "('m, 'e, 'a) run \<Rightarrow> ('a \<Rightarrow> ('m, 'e, 'b) run) \<Rightarrow> ('m, 'e, 'b) run" where
  "andthen m f =
     (case m of
        (t, Inl x) \<Rightarrow> (t, Inl x)
      | (t, Inr a) \<Rightarrow> (case f a of (t', r) \<Rightarrow> (t @ t', r)))"

text \<open>The text a cell wrote to standard output: its \<open>print\<close> calls, concatenated.\<close>

fun stdout_of :: "nat \<Rightarrow> 'm event list \<Rightarrow> string" where
  "stdout_of c [] = []"
| "stdout_of c (Print c' s # t) = (if c' = c then s @ stdout_of c t else stdout_of c t)"
| "stdout_of c (Call f a # t) = stdout_of c t"

subsection \<open>Formatting integers in f-strings\<close>

definition digit_char :: "nat \<Rightarrow> char" where
  "digit_char d = ''0123456789'' ! d"

function digits10 :: "nat \<Rightarrow> string" where
  "digits10 n = (if n < 10 then [digit_char n] else digits10 (n div 10) @ [digit_char (n mod 10)])"
  by pat_completeness auto
termination
  by (relation "measure (\<lambda>n. n)") auto

declare digits10.simps [simp del]

text \<open>Python's \<open>str\<close> of an \<open>int\<close>, which \<open>{...}\<close> in an f-string applies.\<close>

definition str_int :: "int \<Rightarrow> string" where
  "str_int i = (if i < 0 then CHR ''-'' # digits10 (nat (- i)) else digits10 (nat i))"

definition newline :: string where
  "newline = [CHR 0x0A]"

subsection \<open>Tables\<close>

text \<open>
  Modelled from the spec: the Table of the data model (a collection of records with a
  shared, ordered set of named columns, supporting column projection and row slicing)
  and the operations of the tabular library that the cells apply to it. The tabular
  library (pandas) is not part of the repository's sources; the operations are written
  here only as far as the cells need them to be sequenced. A table is its row count and
  its columns in order, each a label with one value per row; \<open>getitem\<close> is \<open>data[c]\<close>,
  \<open>project\<close> is \<open>data[[c1, ...]]\<close>, \<open>head\<close> is \<open>.head(n)\<close> for a literal \<open>n \<ge> 0\<close>,
  \<open>series_map\<close> is \<open>Series.map(f)\<close> and \<open>setitem\<close> is \<open>data[c] = series\<close> for a series
  over the table's own rows.
\<close>

record ('m, 'j) table =
  nrows :: nat
  columns :: "(string \<times> ('m, 'j) pyval list) list"

definition labels :: "('m, 'j) table \<Rightarrow> string list" where
  "labels t = map fst (columns t)"

definition getitem :: "('m, 'j) table \<Rightarrow> string \<Rightarrow> 'e exn + ('m, 'j) pyval list" where
  "getitem t c = (case map_of (columns t) c of None \<Rightarrow> Inl (KeyError c) | Some vs \<Rightarrow> Inr vs)"

fun project_cols ::
  "('m, 'j) table \<Rightarrow> string list \<Rightarrow> 'e exn + (string \<times> ('m, 'j) pyval list) list" where
  "project_cols t [] = Inr []"
| "project_cols t (c # cs) =
     (case getitem t c of
        Inl x \<Rightarrow> Inl x
      | Inr vs \<Rightarrow> (case project_cols t cs of Inl x \<Rightarrow> Inl x | Inr r \<Rightarrow> Inr ((c, vs) # r)))"

definition project :: "('m, 'j) table \<Rightarrow> string list \<Rightarrow> 'e exn + ('m, 'j) table" where
  "project t cs =
     (case project_cols t cs of Inl x \<Rightarrow> Inl x | Inr r \<Rightarrow> Inr \<lparr>nrows = nrows t, columns = r\<rparr>)"

definition head :: "nat \<Rightarrow> ('m, 'j) table \<Rightarrow> ('m, 'j) table" where
  "head n t = \<lparr>nrows = min n (nrows t), columns = map (\<lambda>(c, vs). (c, take n vs)) (columns t)\<rparr>"

text \<open>
  \<open>Series.map(f)\<close> calls \<open>f\<close> on the entries in row order and collects the results; an
  exception raised by \<open>f\<close> is not caught.
\<close>

fun series_map :: "('a \<Rightarrow> ('m, 'e, 'b) run) \<Rightarrow> 'a list \<Rightarrow> ('m, 'e, 'b list) run" where
  "series_map f [] = returns []"
| "series_map f (v # vs) =
     andthen (f v) (\<lambda>y. andthen (series_map f vs) (\<lambda>ys. returns (y # ys)))"

text \<open>
  Column assignment: an existing label keeps its place and gets the new values, a new
  label is appended as the last column.
\<close>

definition setitem :: "('m, 'j) table \<Rightarrow> string \<Rightarrow> ('m, 'j) pyval list \<Rightarrow> ('m, 'j) table" where
  "setitem t c vs =
     (if c \<in> set (labels t)
      then t\<lparr>columns := map (\<lambda>(c', vs'). if c' = c then (c', vs) else (c', vs')) (columns t)\<rparr>
      else t\<lparr>columns := columns t @ [(c, vs)]\<rparr>)"

subsection \<open>The library boundary\<close>

text \<open>
  One field per library function the notebook calls. \<open>'m\<close> is RDKit's molecule, \<open>'o\<close>
  any other library object (an atom, a ring-information object, a vector of doubles, a
  bit vector), \<open>'j\<close> a JSON value, \<open>'e\<close> whatever a library raises. A result \<open>Inl e\<close> is
  a raised exception. \<open>MolFromSmiles\<close> may return \<open>None\<close> instead of a molecule. The
  module-level functions receive the Python value of the variable they are called with,
  which may be \<open>None\<close>; a method is only ever entered on an object.
  \<open>gzip_readline\<close> is \<open>gzip.open(path, 'rt')\<close> followed by \<open>readline()\<close>, and
  \<open>read_json_lines\<close> is \<open>pd.read_json(path, lines=True)\<close>.
\<close>

record ('m, 'j, 'o, 'e) libs =
  gzip_readline :: "string \<Rightarrow> 'e + string"
  json_loads :: "string \<Rightarrow> 'e + 'j"
  read_json_lines :: "string \<Rightarrow> 'e + ('m, 'j) table"
  MolFromSmiles :: "('m, 'j) pyval \<Rightarrow> 'e + 'm option"
  AddHs :: "'m option \<Rightarrow> 'e + 'm"
  GetAtoms :: "'m \<Rightarrow> 'e + 'o list"
  GetSymbol :: "'o \<Rightarrow> 'e + string"
  GetRingInfo :: "'m \<Rightarrow> 'e + 'o"
  NumRings :: "'o \<Rightarrow> 'e + int"
  CalcNumRotatableBonds :: "'m option \<Rightarrow> 'e + int"
  BCUT2D :: "'m option \<Rightarrow> 'e + 'o"
  GetMorganFingerprintAsBitVect :: "'m option \<Rightarrow> int \<Rightarrow> int \<Rightarrow> 'e + 'o"
  asarray :: "'o \<Rightarrow> 'e + int list"

subsection \<open>The code cells\<close>

definition data_path :: string where
  "data_path = ''../datasets/qm9.json.gz''"

text \<open>\<open>str.strip()\<close>: whitespace removed at both ends (the ASCII whitespace characters).\<close>

definition py_space :: "char \<Rightarrow> bool" where
  "py_space c \<longleftrightarrow> c \<in> set [CHR 0x09, CHR 0x0A, CHR 0x0B, CHR 0x0C, CHR 0x0D,
                               CHR 0x1C, CHR 0x1D, CHR 0x1E, CHR 0x1F, CHR 0x20]"

definition strip :: "string \<Rightarrow> string" where
  "strip s = rev (dropWhile py_space (rev (dropWhile py_space s)))"

text \<open>
  \<open>In [2]\<close>:
  \<^verbatim>\<open>with gzip.open(data_path, 'rt') as fp: record = fp.readline().strip()\<close>,
  \<^verbatim>\<open>print(record)\<close>.
\<close>

definition cell2 :: "('m, 'j, 'o, 'e) libs \<Rightarrow> ('m, 'e, string) run" where
  "cell2 lib =
     andthen (lib_call (gzip_readline lib data_path)) (\<lambda>line.
     andthen (emits (Print 2 (strip line @ newline))) (\<lambda>_.
     returns (strip line)))"

text \<open>\<open>In [3]\<close>: \<^verbatim>\<open>json.loads(record)\<close>.\<close>

definition cell3 :: "('m, 'j, 'o, 'e) libs \<Rightarrow> string \<Rightarrow> ('m, 'e, 'j) run" where
  "cell3 lib record = lib_call (json_loads lib record)"

text \<open>\<open>In [4]\<close>: \<^verbatim>\<open>data = pd.read_json(data_path, lines=True).head(1000)\<close>.\<close>

definition cell4 :: "('m, 'j, 'o, 'e) libs \<Rightarrow> ('m, 'e, ('m, 'j) table) run" where
  "cell4 lib = andthen (lib_call (read_json_lines lib data_path)) (\<lambda>t. returns (head 1000 t))"

text \<open>\<open>In [5]\<close>: \<^verbatim>\<open>data[['smiles_0', 'inchi_0', 'u']].head(5)\<close>.\<close>

definition cell5 :: "('m, 'j) table \<Rightarrow> ('m, 'e, ('m, 'j) table) run" where
  "cell5 data =
     (case project data [''smiles_0'', ''inchi_0'', ''u''] of
        Inl x \<Rightarrow> raises x
      | Inr t \<Rightarrow> returns (head 5 t))"

text \<open>\<open>In [6]\<close>: \<^verbatim>\<open>mol = Chem.MolFromSmiles('CCCO')\<close>.\<close>

definition cell6 :: "('m, 'j, 'o, 'e) libs \<Rightarrow> ('m, 'e, 'm option) run" where
  "cell6 lib = lib_call (MolFromSmiles lib (PyStr ''CCCO''))"

text \<open>
  \<open>In [7]\<close>: \<^verbatim>\<open>data['mol'] = data['smiles_0'].map(Chem.MolFromSmiles)\<close>. The right-hand
  side is evaluated first; the column is assigned only when the map has returned.
\<close>

definition of_mol :: "'m option \<Rightarrow> ('m, 'j) pyval" where
  "of_mol r = (case r of None \<Rightarrow> PyNone | Some m \<Rightarrow> PyMol m)"

definition parse_column ::
  "('m, 'j, 'o, 'e) libs \<Rightarrow> ('m, 'j) pyval list \<Rightarrow> ('m, 'e, 'm option list) run" where
  "parse_column lib col = series_map (\<lambda>v. lib_call (MolFromSmiles lib v)) col"

definition cell7 :: "('m, 'j, 'o, 'e) libs \<Rightarrow> ('m, 'j) table \<Rightarrow> ('m, 'e, ('m, 'j) table) run" where
  "cell7 lib data =
     (case getitem data ''smiles_0'' of
        Inl x \<Rightarrow> raises x
      | Inr col \<Rightarrow>
          andthen (parse_column lib col) (\<lambda>ms.
          returns (setitem data ''mol'' (map of_mol ms))))"

text \<open>
  \<open>In [8]\<close> and \<open>In [10]\<close>:
  \<^verbatim>\<open>for i, a in enumerate(mol.GetAtoms()): print(f'Atom {i} is an {a.GetSymbol()}')\<close>.
  \<open>mol.GetAtoms()\<close> on \<open>None\<close> is an \<open>AttributeError\<close>.
\<close>

fun print_atoms :: "('m, 'j, 'o, 'e) libs \<Rightarrow> nat \<Rightarrow> nat \<Rightarrow> 'o list \<Rightarrow> ('m, 'e, unit) run" where
  "print_atoms lib c i [] = returns ()"
| "print_atoms lib c i (a # as) =
     andthen (lib_call (GetSymbol lib a)) (\<lambda>sym.
     andthen (emits (Print c (''Atom '' @ str_int (int i) @ '' is an '' @ sym @ newline))) (\<lambda>_.
     print_atoms lib c (Suc i) as))"

definition atoms_cell :: "('m, 'j, 'o, 'e) libs \<Rightarrow> nat \<Rightarrow> 'm option \<Rightarrow> ('m, 'e, unit) run" where
  "atoms_cell lib c mol =
     (case mol of
        None \<Rightarrow> raises AttributeError
      | Some m \<Rightarrow> andthen (lib_call (GetAtoms lib m)) (print_atoms lib c 0))"

definition cell8 :: "('m, 'j, 'o, 'e) libs \<Rightarrow> 'm option \<Rightarrow> ('m, 'e, unit) run" where
  "cell8 lib mol = atoms_cell lib 8 mol"

text \<open>\<open>In [9]\<close>: \<^verbatim>\<open>mol = Chem.AddHs(mol)\<close>.\<close>

definition cell9 :: "('m, 'j, 'o, 'e) libs \<Rightarrow> 'm option \<Rightarrow> ('m, 'e, 'm option) run" where
  "cell9 lib mol = andthen (lib_call (AddHs lib mol)) (\<lambda>m. returns (Some m))"

definition cell10 :: "('m, 'j, 'o, 'e) libs \<Rightarrow> 'm option \<Rightarrow> ('m, 'e, unit) run" where
  "cell10 lib mol = atoms_cell lib 10 mol"

text \<open>\<open>In [11]\<close>: \<^verbatim>\<open>toluene = Chem.MolFromSmiles('Cc1ccccc1')\<close>.\<close>

definition cell11 :: "('m, 'j, 'o, 'e) libs \<Rightarrow> ('m, 'e, 'm option) run" where
  "cell11 lib = lib_call (MolFromSmiles lib (PyStr ''Cc1ccccc1''))"

text \<open>
  \<open>In [12]\<close>: \<^verbatim>\<open>r = toluene.GetRingInfo()\<close>,
  \<^verbatim>\<open>print(f'Toluene has {r.NumRings()} ring')\<close>.
\<close>

definition cell12 :: "('m, 'j, 'o, 'e) libs \<Rightarrow> 'm option \<Rightarrow> ('m, 'e, 'o) run" where
  "cell12 lib toluene =
     (case toluene of
        None \<Rightarrow> raises AttributeError
      | Some m \<Rightarrow>
          andthen (emits (Call ''GetRingInfo'' (Some m))) (\<lambda>_.
          andthen (lib_call (GetRingInfo lib m)) (\<lambda>r.
          andthen (lib_call (NumRings lib r)) (\<lambda>n.
          andthen (emits (Print 12 (''Toluene has '' @ str_int n @ '' ring'' @ newline))) (\<lambda>_.
          returns r)))))"

text \<open>
  \<open>In [13]\<close>:
  \<^verbatim>\<open>print(f'Toluene has {AllChem.CalcNumRotatableBonds(toluene)} rotatable bonds')\<close>.
\<close>

definition cell13 :: "('m, 'j, 'o, 'e) libs \<Rightarrow> 'm option \<Rightarrow> ('m, 'e, unit) run" where
  "cell13 lib toluene =
     andthen (emits (Call ''CalcNumRotatableBonds'' toluene)) (\<lambda>_.
     andthen (lib_call (CalcNumRotatableBonds lib toluene)) (\<lambda>n.
     emits (Print 13 (''Toluene has '' @ str_int n @ '' rotatable bonds'' @ newline))))"

text \<open>\<open>In [14]\<close>: \<^verbatim>\<open>r = AllChem.BCUT2D(mol)\<close>.\<close>

definition cell14 :: "('m, 'j, 'o, 'e) libs \<Rightarrow> 'm option \<Rightarrow> ('m, 'e, 'o) run" where
  "cell14 lib mol =
     andthen (emits (Call ''BCUT2D'' mol)) (\<lambda>_. lib_call (BCUT2D lib mol))"

text \<open>\<open>In [15]\<close>: \<^verbatim>\<open>bv = AllChem.GetMorganFingerprintAsBitVect(mol, 4, 16)\<close>.\<close>

definition cell15 :: "('m, 'j, 'o, 'e) libs \<Rightarrow> 'm option \<Rightarrow> ('m, 'e, 'o) run" where
  "cell15 lib mol =
     andthen (emits (Call ''GetMorganFingerprintAsBitVect'' mol)) (\<lambda>_.
     lib_call (GetMorganFingerprintAsBitVect lib mol 4 16))"

text \<open>\<open>In [16]\<close>: \<^verbatim>\<open>np.asarray(bv)\<close>.\<close>

definition cell16 :: "('m, 'j, 'o, 'e) libs \<Rightarrow> 'o \<Rightarrow> ('m, 'e, int list) run" where
  "cell16 lib bv = lib_call (asarray lib bv)"

subsection \<open>The run, top to bottom\<close>

text \<open>The variables the session holds when the last cell has returned.\<close>

record ('m, 'j, 'o) session =
  record_var :: string
  data_var :: "('m, 'j) table"
  mol_var :: "'m option"
  toluene_var :: "'m option"
  r_var :: 'o
  bv_var :: 'o

definition notebook :: "('m, 'j, 'o, 'e) libs \<Rightarrow> ('m, 'e, ('m, 'j, 'o) session) run" where
  "notebook lib =
     andthen (cell2 lib) (\<lambda>record.
     andthen (cell3 lib record) (\<lambda>_.
     andthen (cell4 lib) (\<lambda>data.
     andthen (cell5 data) (\<lambda>_.
     andthen (cell6 lib) (\<lambda>mol.
     andthen (cell7 lib data) (\<lambda>data.
     andthen (cell8 lib mol) (\<lambda>_.
     andthen (cell9 lib mol) (\<lambda>mol.
     andthen (cell10 lib mol) (\<lambda>_.
     andthen (cell11 lib) (\<lambda>toluene.
     andthen (cell12 lib toluene) (\<lambda>r.
     andthen (cell13 lib toluene) (\<lambda>_.
     andthen (cell14 lib mol) (\<lambda>r.
     andthen (cell15 lib mol) (\<lambda>bv.
     andthen (cell16 lib bv) (\<lambda>_.
     returns \<lparr>record_var = record, data_var = data, mol_var = mol,
              toluene_var = toluene, r_var = r, bv_var = bv\<rparr>)))))))))))))))"

subsection \<open>Stored cell outputs\<close>

text \<open>
  The text the notebook file stores as the standard output of \<open>In [8]\<close>, \<open>In [10]\<close>,
  \<open>In [12]\<close> and \<open>In [13]\<close>.
\<close>

definition cell8_stored :: string where
  "cell8_stored =
     ''Atom 0 is an C'' @ newline @ ''Atom 1 is an C'' @ newline @
     ''Atom 2 is an C'' @ newline @ ''Atom 3 is an O'' @ newline"

definition cell10_stored :: string where
  "cell10_stored =
     ''Atom 0 is an C'' @ newline @ ''Atom 1 is an C'' @ newline @
     ''Atom 2 is an C'' @ newline @ ''Atom 3 is an O'' @ newline @
     ''Atom 4 is an H'' @ newline @ ''Atom 5 is an H'' @ newline @
     ''Atom 6 is an H'' @ newline @ ''Atom 7 is an H'' @ newline @
     ''Atom 8 is an H'' @ newline @ ''Atom 9 is an H'' @ newline @
     ''Atom 10 is an H'' @ newline @ ''Atom 11 is an H'' @ newline"

definition cell12_stored :: string where
  "cell12_stored = ''Toluene has 1 ring'' @ newline"

definition cell13_stored :: string where
  "cell13_stored = ''Toluene has 0 rotatable bonds'' @ newline"

subsection \<open>A stand-in library and small tables\<close>

text \<open>
  A concrete value for the library parameter, to run the cells on: a molecule is its
  atom symbols, the number of hydrogens still implicit, and its ring count. It knows
  the three SMILES strings below, returns \<open>None\<close> for any other string and raises for
  an entry that is not a string.
\<close>

record toy_mol =
  symbols :: "string list"
  implicit_h :: nat
  ring_count :: int

datatype toy_obj = Atom string | Rings int | Vector "int list"

definition propanol :: toy_mol where
  "propanol = \<lparr>symbols = [''C'', ''C'', ''C'', ''O''], implicit_h = 8, ring_count = 0\<rparr>"

definition propanol_h :: toy_mol where
  "propanol_h =
     \<lparr>symbols = [''C'', ''C'', ''C'', ''O'', ''H'', ''H'', ''H'', ''H'', ''H'', ''H'', ''H'', ''H''],
      implicit_h = 0, ring_count = 0\<rparr>"

definition toluene_mol :: toy_mol where
  "toluene_mol =
     \<lparr>symbols = [''C'', ''C'', ''C'', ''C'', ''C'', ''C'', ''C''], implicit_h = 8, ring_count = 1\<rparr>"

definition methane :: toy_mol where
  "methane = \<lparr>symbols = [''C''], implicit_h = 4, ring_count = 0\<rparr>"

definition stub_parse :: "(toy_mol, unit) pyval \<Rightarrow> unit + toy_mol option" where
  "stub_parse v =
     (case v of
        PyStr s \<Rightarrow>
          if s = ''CCCO'' then Inr (Some propanol)
          else if s = ''Cc1ccccc1'' then Inr (Some toluene_mol)
          else if s = ''C'' then Inr (Some methane)
          else Inr None
      | _ \<Rightarrow> Inl ())"

definition stub_table :: "(toy_mol, unit) table" where
  "stub_table = \<lparr>nrows = 2, columns =
     [(''u'', [PyJson (), PyJson ()]),
      (''smiles_0'', [PyStr ''C'', PyStr ''C'']),
      (''inchi_0'', [PyStr ''InChI=1S/CH4/h1H4'', PyStr ''InChI=1S/CH4/h1H4''])]\<rparr>"

definition stub :: "(toy_mol, unit, toy_obj, unit) libs" where
  "stub = \<lparr>
     gzip_readline = (\<lambda>p. Inr (''{}'' @ newline)),
     json_loads = (\<lambda>s. Inr ()),
     read_json_lines = (\<lambda>p. Inr stub_table),
     MolFromSmiles = stub_parse,
     AddHs = (\<lambda>a. case a of None \<Rightarrow> Inl ()
        | Some m \<Rightarrow> Inr (m\<lparr>symbols := symbols m @ replicate (implicit_h m) ''H'', implicit_h := 0\<rparr>)),
     GetAtoms = (\<lambda>m. Inr (map Atom (symbols m))),
     GetSymbol = (\<lambda>x. case x of Atom s \<Rightarrow> Inr s | _ \<Rightarrow> Inl ()),
     GetRingInfo = (\<lambda>m. Inr (Rings (ring_count m))),
     NumRings = (\<lambda>x. case x of Rings n \<Rightarrow> Inr n | _ \<Rightarrow> Inl ()),
     CalcNumRotatableBonds = (\<lambda>a. case a of None \<Rightarrow> Inl () | Some m \<Rightarrow> Inr 0),
     BCUT2D = (\<lambda>a. case a of None \<Rightarrow> Inl () | Some m \<Rightarrow> Inr (Vector [])),
     GetMorganFingerprintAsBitVect = (\<lambda>a radius n. case a of None \<Rightarrow> Inl ()
        | Some m \<Rightarrow> Inr (Vector [0, 1, 1, 1, 1, 1, 0, 1, 0, 0, 1, 0, 0, 1, 0, 1])),
     asarray = (\<lambda>x. case x of Vector v \<Rightarrow> Inr v | _ \<Rightarrow> Inl ())\<rparr>"

text \<open>
  Two input tables of two records each. In the first the second record's SMILES field
  is the string \<open>C(\<close>, which is not a SMILES string (the branch is never closed); in
  the second it is not a string at all.
\<close>

definition malformed_table :: "(toy_mol, unit) table" where
  "malformed_table = \<lparr>nrows = 2, columns = [(''smiles_0'', [PyStr ''C'', PyStr ''C(''])]\<rparr>"

definition nonstring_table :: "(toy_mol, unit) table" where
  "nonstring_table = \<lparr>nrows = 2, columns = [(''smiles_0'', [PyStr ''C'', PyJson ()])]\<rparr>"

section \<open>Properties\<close>

subsection \<open>Traces and results of sequenced statements\<close>

lemma fst_andthen:
  "fst (andthen m f) = fst m @ (case snd m of Inl x \<Rightarrow> [] | Inr a \<Rightarrow> fst (f a))"
  by (cases m) (auto simp: andthen_def split: sum.splits prod.splits)

lemma snd_andthen:
  "snd (andthen m f) = (case snd m of Inl x \<Rightarrow> Inl x | Inr a \<Rightarrow> snd (f a))"
  by (cases m) (auto simp: andthen_def split: sum.splits prod.splits)

lemma fst_lib_call [simp]: "fst (lib_call r) = []"
  by (simp add: lib_call_def split: sum.splits)

lemma snd_lib_call:
  "snd (lib_call r) = (case r of Inl e \<Rightarrow> Inl (LibraryError e) | Inr a \<Rightarrow> Inr a)"
  by (simp add: lib_call_def split: sum.splits)

lemma fst_returns [simp]: "fst (returns a) = []"
  by (simp add: returns_def)

lemma snd_returns [simp]: "snd (returns a) = Inr a"
  by (simp add: returns_def)

lemma fst_raises [simp]: "fst (raises x) = []"
  by (simp add: raises_def)

lemma snd_raises [simp]: "snd (raises x) = Inl x"
  by (simp add: raises_def)

lemma fst_emits [simp]: "fst (emits ev) = [ev]"
  by (simp add: emits_def)

lemma snd_emits [simp]: "snd (emits ev) = Inr ()"
  by (simp add: emits_def)

lemma in_andthenE:
  assumes "ev \<in> set (fst (andthen m f))"
  obtains "ev \<in> set (fst m)" | a where "snd m = Inr a" and "ev \<in> set (fst (f a))"
  using assms by (cases "snd m") (auto simp: fst_andthen)




subsection \<open>Decimal rendering\<close>




subsection \<open>What each cell prints and calls\<close>

lemma cell2_events: "ev \<in> set (fst (cell2 lib)) \<Longrightarrow> \<exists>s. ev = Print 2 s"
  by (auto simp: cell2_def fst_andthen split: sum.splits)

lemma cell3_silent: "fst (cell3 lib record) = []"
  by (simp add: cell3_def)

lemma cell4_silent: "fst (cell4 lib) = []"
  by (auto simp: cell4_def fst_andthen split: sum.splits)

lemma cell5_silent: "fst (cell5 data) = []"
  by (auto simp: cell5_def split: sum.splits)

lemma cell6_silent: "fst (cell6 lib) = []"
  by (simp add: cell6_def)

lemma series_map_silent: "fst (series_map (\<lambda>v. lib_call (g v)) col) = []"
  by (induction col) (auto simp: fst_andthen split: sum.splits)

lemma cell7_silent: "fst (cell7 lib data) = []"
  by (auto simp: cell7_def parse_column_def fst_andthen series_map_silent split: sum.splits)

lemma print_atoms_events:
  "ev \<in> set (fst (print_atoms lib c i as)) \<Longrightarrow> \<exists>s. ev = Print c s"
  by (induction as arbitrary: i) (auto simp: fst_andthen split: sum.splits)

lemma atoms_cell_events:
  "ev \<in> set (fst (atoms_cell lib c mol)) \<Longrightarrow> \<exists>s. ev = Print c s"
  by (auto simp: atoms_cell_def fst_andthen split: option.splits sum.splits
      dest: print_atoms_events)

lemma atoms_cell_result: "snd (atoms_cell lib c mol) = Inr u \<Longrightarrow> \<exists>m. mol = Some m"
  by (auto simp: atoms_cell_def split: option.splits)

lemma cell9_silent: "fst (cell9 lib mol) = []"
  by (auto simp: cell9_def fst_andthen split: sum.splits)

lemma cell9_result:
  "snd (cell9 lib mol) = Inr mol' \<Longrightarrow> \<exists>m. mol' = Some m \<and> AddHs lib mol = Inr m"
  by (auto simp: cell9_def snd_andthen snd_lib_call split: sum.splits)

lemma cell11_silent: "fst (cell11 lib) = []"
  by (simp add: cell11_def)

lemma cell12_calls:
  "Call f a \<in> set (fst (cell12 lib toluene)) \<Longrightarrow>
   f = ''GetRingInfo'' \<and> a = toluene \<and> (\<exists>m. toluene = Some m)"
  by (cases toluene; cases "GetRingInfo lib (the toluene)")
     (auto simp: cell12_def fst_andthen snd_andthen snd_lib_call split: sum.splits)

lemma cell12_result: "snd (cell12 lib toluene) = Inr r \<Longrightarrow> \<exists>m. toluene = Some m"
  by (cases toluene) (auto simp: cell12_def)

lemma cell13_calls:
  "Call f a \<in> set (fst (cell13 lib toluene)) \<Longrightarrow> f = ''CalcNumRotatableBonds'' \<and> a = toluene"
  by (auto simp: cell13_def fst_andthen snd_andthen snd_lib_call split: sum.splits)

lemma cell14_calls:
  "Call f a \<in> set (fst (cell14 lib mol)) \<Longrightarrow> f = ''BCUT2D'' \<and> a = mol"
  by (auto simp: cell14_def fst_andthen snd_andthen snd_lib_call split: sum.splits)

lemma cell15_calls:
  "Call f a \<in> set (fst (cell15 lib mol)) \<Longrightarrow> f = ''GetMorganFingerprintAsBitVect'' \<and> a = mol"
  by (auto simp: cell15_def fst_andthen snd_andthen snd_lib_call split: sum.splits)

lemma cell16_silent: "fst (cell16 lib bv) = []"
  by (simp add: cell16_def)

text \<open>
  Where an event of a run comes from. An event of \<open>In [12]\<close> to \<open>In [15]\<close> is only
  there when the cells before have returned: both molecules were parsed, the atoms of
  \<open>mol\<close> were listed and its hydrogens made explicit.
\<close>

lemma notebook_events:
  assumes "ev \<in> set (fst (notebook lib))"
  shows "(\<exists>s. ev = Print 2 s \<or> ev = Print 8 s \<or> ev = Print 10 s) \<or>
         (\<exists>m0 m1 toluene.
            MolFromSmiles lib (PyStr ''CCCO'') = Inr (Some m0) \<and>
            AddHs lib (Some m0) = Inr m1 \<and>
            MolFromSmiles lib (PyStr ''Cc1ccccc1'') = Inr toluene \<and>
            (ev \<in> set (fst (cell12 lib toluene)) \<or>
             (\<exists>r. snd (cell12 lib toluene) = Inr r) \<and> ev \<in> set (fst (cell13 lib toluene)) \<or>
             ev \<in> set (fst (cell14 lib (Some m1))) \<or>
             ev \<in> set (fst (cell15 lib (Some m1)))))"
  using assms unfolding notebook_def
  apply (elim in_andthenE)
  apply (auto simp: cell3_silent cell4_silent cell5_silent cell6_silent cell7_silent
      cell9_silent cell11_silent cell16_silent cell8_def cell10_def cell6_def cell11_def
      snd_lib_call
      dest!: cell2_events atoms_cell_events atoms_cell_result cell9_result split: sum.splits)
  done

subsection \<open>The standard output of \<open>In [12]\<close>\<close>









text \<open>
  Run on the stand-in library, the cells print exactly the text the notebook file
  stores for them.
\<close>

lemma stub_reproduces_stored_stdout:
  "stdout_of 8 (fst (notebook stub)) = cell8_stored"
  "stdout_of 10 (fst (notebook stub)) = cell10_stored"
  "stdout_of 12 (fst (notebook stub)) = cell12_stored"
  "stdout_of 13 (fst (notebook stub)) = cell13_stored"
  by code_simp+

subsection \<open>Ring count of toluene\<close>



subsection \<open>Descriptor calls are made on parsed molecules\<close>

text \<open>
  Claim C2. Every descriptor, ring-information and fingerprint call the notebook makes
  is applied only to a molecule produced by a successful SMILES parse, so that an
  absent molecule never reaches such a call. In the run top to bottom: the
  ring-information query and the rotatable-bond descriptor receive the molecule that the
  parse of \<open>Cc1ccccc1\<close> returned; the BCUT descriptor and the Morgan fingerprint receive
  the molecule that the parse of \<open>CCCO\<close> returned, after \<open>In [9]\<close> has made its hydrogens
  explicit. None of the four calls ever receives \<open>None\<close>.
\<close>

theorem descriptor_calls_on_parsed_molecules:
  assumes "Call f a \<in> set (fst (notebook lib))"
  shows "(f \<in> {''GetRingInfo'', ''CalcNumRotatableBonds''} \<and>
          (\<exists>m. a = Some m \<and> MolFromSmiles lib (PyStr ''Cc1ccccc1'') = Inr (Some m))) \<or>
         (f \<in> {''BCUT2D'', ''GetMorganFingerprintAsBitVect''} \<and>
          (\<exists>m0 m. a = Some m \<and> MolFromSmiles lib (PyStr ''CCCO'') = Inr (Some m0) \<and>
                  AddHs lib (Some m0) = Inr m))"
proof -
  from notebook_events [OF assms] obtain m0 m1 toluene where
    p0: "MolFromSmiles lib (PyStr ''CCCO'') = Inr (Some m0)" and
    h: "AddHs lib (Some m0) = Inr m1" and
    pt: "MolFromSmiles lib (PyStr ''Cc1ccccc1'') = Inr toluene" and
    c: "Call f a \<in> set (fst (cell12 lib toluene)) \<or>
        (\<exists>r. snd (cell12 lib toluene) = Inr r) \<and> Call f a \<in> set (fst (cell13 lib toluene)) \<or>
        Call f a \<in> set (fst (cell14 lib (Some m1))) \<or>
        Call f a \<in> set (fst (cell15 lib (Some m1)))"
    by auto
  from c consider
      (ring) "Call f a \<in> set (fst (cell12 lib toluene))"
    | (rot) r where "snd (cell12 lib toluene) = Inr r"
        and "Call f a \<in> set (fst (cell13 lib toluene))"
    | (bcut) "Call f a \<in> set (fst (cell14 lib (Some m1)))"
    | (fp) "Call f a \<in> set (fst (cell15 lib (Some m1)))"
    by blast
  then show ?thesis
  proof cases
    case ring
    from cell12_calls [OF ring] pt show ?thesis by auto
  next
    case rot
    from cell12_result [OF rot(1)] cell13_calls [OF rot(2)] pt show ?thesis by auto
  next
    case bcut
    from cell14_calls [OF bcut] p0 h show ?thesis by auto
  next
    case fp
    from cell15_calls [OF fp] p0 h show ?thesis by auto
  qed
qed

text \<open>On the stand-in library the run reaches the BCUT call, with 1-propanol made explicit.\<close>

theorem descriptor_calls_on_parsed_molecules_witness:
  "Call ''BCUT2D'' (Some propanol_h) \<in> set (fst (notebook stub)) \<and>
   (\<exists>m0 m. Some propanol_h = Some m \<and> MolFromSmiles stub (PyStr ''CCCO'') = Inr (Some m0) \<and>
           AddHs stub (Some m0) = Inr m)"
proof -
  have h: "Call ''BCUT2D'' (Some propanol_h) \<in> set (fst (notebook stub))"
    by code_simp
  from descriptor_calls_on_parsed_molecules [OF h] h show ?thesis
    by simp
qed

subsection \<open>A parse that fails inside \<open>In [7]\<close>\<close>

lemma parse_column_Nil [simp]: "parse_column lib [] = returns []"
  by (simp add: parse_column_def)

lemma parse_column_Cons [simp]:
  "parse_column lib (v # vs) =
     andthen (lib_call (MolFromSmiles lib v)) (\<lambda>y.
     andthen (parse_column lib vs) (\<lambda>ys. returns (y # ys)))"
  by (simp add: parse_column_def)

lemma parse_column_first_raise:
  "i < length col \<Longrightarrow> (\<forall>j<i. \<exists>r. MolFromSmiles lib (col ! j) = Inr r) \<Longrightarrow>
   MolFromSmiles lib (col ! i) = Inl e \<Longrightarrow>
   snd (parse_column lib col) = Inl (LibraryError e)"
proof (induction col arbitrary: i)
  case Nil
  then show ?case by simp
next
  case (Cons v vs)
  show ?case
  proof (cases i)
    case 0
    with Cons.prems show ?thesis
      by (simp add: snd_andthen snd_lib_call)
  next
    case (Suc k)
    with Cons.prems have k: "k < length vs" and e: "MolFromSmiles lib (vs ! k) = Inl e"
      by auto
    from Suc Cons.prems have prev: "\<forall>j<k. \<exists>r. MolFromSmiles lib (vs ! j) = Inr r"
      by fastforce
    from Suc Cons.prems obtain r where r: "MolFromSmiles lib v = Inr r"
      by fastforce
    from Cons.IH [OF k prev e] r show ?thesis
      by (simp add: snd_andthen snd_lib_call)
  qed
qed

lemma parse_column_all_return:
  "(\<forall>v\<in>set col. \<exists>r. MolFromSmiles lib v = Inr r) \<Longrightarrow>
   \<exists>rs. snd (parse_column lib col) = Inr rs \<and>
        list_all2 (\<lambda>v r. MolFromSmiles lib v = Inr r) col rs"
proof (induction col)
  case Nil
  then show ?case by simp
next
  case (Cons v vs)
  from Cons.prems obtain r where r: "MolFromSmiles lib v = Inr r"
    by auto
  from Cons obtain rs where
    rs: "snd (parse_column lib vs) = Inr rs"
        "list_all2 (\<lambda>v r. MolFromSmiles lib v = Inr r) vs rs"
    by auto
  from r rs show ?case
    by (simp add: snd_andthen snd_lib_call)
qed

lemma snd_cell7:
  "map_of (columns data) ''smiles_0'' = Some col \<Longrightarrow>
   snd (cell7 lib data) =
     (case snd (parse_column lib col) of
        Inl x \<Rightarrow> Inl x
      | Inr rs \<Rightarrow> Inr (setitem data ''mol'' (map of_mol rs)))"
  by (simp add: cell7_def getitem_def snd_andthen split: sum.splits)

text \<open>
  Claim C1, as amended. The cell \<open>In [7]\<close> has no recovery path: when the parser raises
  for the SMILES field of some record, the exception of the first such record leaves
  the cell unhandled, the cell ends with it, and no \<open>mol\<close> column is assigned. A failure
  surfaces only in that way. When the parser returns for every record, be it a molecule
  or \<open>None\<close> for a string it cannot parse, the cell completes, and each record's \<open>mol\<close>
  entry holds what the parser returned for that record.
\<close>

theorem cell7_no_recovery:
  assumes "map_of (columns data) ''smiles_0'' = Some col"
  shows "(\<forall>i e. i < length col \<and> (\<forall>j<i. \<exists>r. MolFromSmiles lib (col ! j) = Inr r) \<and>
                MolFromSmiles lib (col ! i) = Inl e \<longrightarrow>
              snd (cell7 lib data) = Inl (LibraryError e)) \<and>
         ((\<forall>v\<in>set col. \<exists>r. MolFromSmiles lib v = Inr r) \<longrightarrow>
          (\<exists>rs. snd (cell7 lib data) = Inr (setitem data ''mol'' (map of_mol rs)) \<and>
                list_all2 (\<lambda>v r. MolFromSmiles lib v = Inr r) col rs))"
proof (intro conjI allI impI)
  fix i e
  assume "i < length col \<and> (\<forall>j<i. \<exists>r. MolFromSmiles lib (col ! j) = Inr r) \<and>
          MolFromSmiles lib (col ! i) = Inl e"
  then have "snd (parse_column lib col) = Inl (LibraryError e)"
    by (intro parse_column_first_raise) auto
  then show "snd (cell7 lib data) = Inl (LibraryError e)"
    by (simp add: snd_cell7 [OF assms])
next
  assume "\<forall>v\<in>set col. \<exists>r. MolFromSmiles lib v = Inr r"
  from parse_column_all_return [OF this] obtain rs where
    "snd (parse_column lib col) = Inr rs" and
    "list_all2 (\<lambda>v r. MolFromSmiles lib v = Inr r) col rs"
    by blast
  then show "\<exists>rs. snd (cell7 lib data) = Inr (setitem data ''mol'' (map of_mol rs)) \<and>
                list_all2 (\<lambda>v r. MolFromSmiles lib v = Inr r) col rs"
    by (auto simp: snd_cell7 [OF assms])
qed

text \<open>
  Both halves on the stand-in library: the record whose SMILES field is not a string
  makes the parser raise and ends the cell; the record whose SMILES field is \<open>C(\<close> does
  not.
\<close>

theorem cell7_no_recovery_witness:
  "map_of (columns nonstring_table) ''smiles_0'' = Some [PyStr ''C'', PyJson ()] \<and>
   snd (cell7 stub nonstring_table) = Inl (LibraryError ()) \<and>
   map_of (columns malformed_table) ''smiles_0'' = Some [PyStr ''C'', PyStr ''C(''] \<and>
   (\<exists>rs. snd (cell7 stub malformed_table) = Inr (setitem malformed_table ''mol'' (map of_mol rs)) \<and>
         list_all2 (\<lambda>v r. MolFromSmiles stub v = Inr r) [PyStr ''C'', PyStr ''C(''] rs)"
proof -
  have c1: "map_of (columns nonstring_table) ''smiles_0'' = Some [PyStr ''C'', PyJson ()]"
    by (simp add: nonstring_table_def)
  have c2: "map_of (columns malformed_table) ''smiles_0'' = Some [PyStr ''C'', PyStr ''C('']"
    by (simp add: malformed_table_def)
  have a: "(1::nat) < length [PyStr ''C'', PyJson ()] \<and>
           (\<forall>j<1. \<exists>r. MolFromSmiles stub ([PyStr ''C'', PyJson ()] ! j) = Inr r) \<and>
           MolFromSmiles stub ([PyStr ''C'', PyJson ()] ! 1) = Inl ()"
    by (simp add: stub_def stub_parse_def)
  have b: "\<forall>v\<in>set [PyStr ''C'', PyStr ''C('']. \<exists>r. MolFromSmiles stub v = Inr r"
    by (simp add: stub_def stub_parse_def)
  from cell7_no_recovery [OF c1, of stub] a
  have "snd (cell7 stub nonstring_table) = Inl (LibraryError ())"
    by blast
  moreover from cell7_no_recovery [OF c2, of stub] b
  have "\<exists>rs. snd (cell7 stub malformed_table) =
               Inr (setitem malformed_table ''mol'' (map of_mol rs)) \<and>
             list_all2 (\<lambda>v r. MolFromSmiles stub v = Inr r) [PyStr ''C'', PyStr ''C(''] rs"
    by blast
  ultimately show ?thesis
    using c1 c2 by blast
qed

text \<open>
  Claim C1 as stated, that for every record whose SMILES field is not a well-formed
  SMILES string the parsing step ends the cell with an unhandled error, fails where the
  parser reports the failure by returning \<open>None\<close>: for the records \<open>C\<close> and \<open>C(\<close> the
  cell raises nothing, returns, and stores \<open>None\<close> as the second record's molecule.
\<close>

theorem malformed_smiles_completes:
  "MolFromSmiles stub (PyStr ''C('') = Inr None \<and>
   cell7 stub malformed_table =
     ([], Inr \<lparr>nrows = 2, columns = [(''smiles_0'', [PyStr ''C'', PyStr ''C('']),
                                     (''mol'', [PyMol methane, PyNone])]\<rparr>)"
  by code_simp

end
